theory Spec2Isabelle
  imports Main
begin

section \<open>Kazagumo: track resolution and the player state machine\<close>

text \<open>
  A shallow embedding of \<^verbatim>\<open>Managers/Supports/KazagumoTrack.ts\<close> and
  \<^verbatim>\<open>Managers/KazagumoPlayer.ts\<close>. Objects that the code mutates through shared
  references (tracks held by the queue) live in an explicit store; everything the code
  sends to a collaborator (event bus, worker connection, REST search, voice gateway) is
  appended to an ordered log. Durations are JavaScript numbers holding integral
  milliseconds; such a number is modelled by the \<^typ>\<open>int\<close> it holds, and where the code
  computes with it the result is rounded as the double arithmetic rounds it. Asynchronous
  methods are modelled run to completion: nothing else touches the player between the
  start of a call and the moment when it and the calls it started have settled. What the
  host does with a rejected promise that nobody awaits is not modelled. The volume and filter operations, which compute on
  floating-point numbers, and the handlers of the notifications other than \<^verbatim>\<open>end\<close>
  are left out.
\<close>

subsection \<open>Errors, events, external effects\<close>

text \<open>\<^verbatim>\<open>new KazagumoError(code, message)\<close> and the plain \<^verbatim>\<open>new Error(message)\<close>.\<close>

datatype KError = KazagumoError nat string | Error string

fun message :: "KError \<Rightarrow> string" where
  "message (KazagumoError c m) = m"
| "message (Error m) = m"

text \<open>
  What a promise can be rejected with: an error object, one of the values \<^verbatim>\<open>null\<close> and
  \<^verbatim>\<open>undefined\<close>, or some other value, one that has no property \<^verbatim>\<open>message\<close>.
\<close>

datatype rejection = Threw KError | Nullish | NoMessage

text \<open>
  What \<^verbatim>\<open>play\<close> can throw: one of the errors it raises itself, or the \<^verbatim>\<open>TypeError\<close>
  that the engine raises when a property of \<^verbatim>\<open>null\<close> or \<^verbatim>\<open>undefined\<close> is read (its text
  is the engine's).
\<close>

datatype play_error = Thrown KError | TypeError

text \<open>
  \<^verbatim>\<open>e.message\<close> for a rejection value \<^verbatim>\<open>e\<close>: the message of an error object,
  \<^verbatim>\<open>undefined\<close> for a value without that property, and a \<^verbatim>\<open>TypeError\<close> for
  \<^verbatim>\<open>null\<close> and \<^verbatim>\<open>undefined\<close>.
\<close>

fun read_message :: "rejection \<Rightarrow> play_error + string option" where
  "read_message (Threw e) = Inr (Some (message e))"
| "read_message NoMessage = Inr None"
| "read_message Nullish = Inl TypeError"

type_synonym ref = nat

text \<open>The members of the \<^verbatim>\<open>Events\<close> enumeration used by the player and the track.\<close>

datatype Events =
  PlayerDestroy | PlayerStart | PlayerEnd | PlayerEmpty | PlayerClosed | PlayerUpdate
  | PlayerException | PlayerStuck | PlayerResumed | PlayerResolveError | Debug

text \<open>
  Arguments of an \<^verbatim>\<open>emit\<close>: the player itself, a track slot (possibly null), a string,
  or the possibly undefined \<^verbatim>\<open>errorMessage\<close>.
\<close>

datatype arg = This | TrackArg "ref option" | Str string | Msg "string option"

text \<open>
  The options of \<^verbatim>\<open>play\<close>: the key that \<^verbatim>\<open>play\<close> reads and the key it overwrites
  before it hands the options on to the worker connection.
\<close>

record PlayOptions =
  replaceCurrent :: "bool option"
  noReplace :: "bool option"

text \<open>
  What reaches a collaborator: an event on the bus, a search sent to the node's REST
  interface, a call on the worker connection, or the voice-state payload of opcode 4
  sent to the gateway (guild id, channel id, \<^verbatim>\<open>self_mute\<close>, \<^verbatim>\<open>self_deaf\<close>).
\<close>

datatype effect =
  Emit Events "arg list"
  | RestResolve string
  | SetPaused bool
  | PlayTrack string PlayOptions
  | StopTrack
  | DestroyLavalinkPlayer
  | RemoveAllListeners
  | Send string "string option" bool "bool option"

subsection \<open>Track entity\<close>

text \<open>The worker's search result (\<^verbatim>\<open>Track\<close> of the worker client library).\<close>

record TrackInfo =
  info_identifier :: string
  info_isSeekable :: bool
  info_author :: string
  info_length :: int
  info_isStream :: bool
  info_title :: string
  info_uri :: string

record Track =
  track_enc :: string
  info :: TrackInfo

text \<open>
  \<^verbatim>\<open>class KazagumoTrack\<close>. The field \<^verbatim>\<open>kazagumo\<close> is either undefined or the one
  session instance, so it is kept as a flag; \<^verbatim>\<open>length\<close> is renamed.
\<close>

record KazagumoTrack =
  kazagumo_set :: bool
  requester :: string
  track :: string
  sourceName :: string
  title :: string
  uri :: string
  "identifier" :: string
  isSeekable :: bool
  isStream :: bool
  author :: "string option"
  length_ms :: "int option"
  position :: "int option"
  thumbnail :: "string option"
  realUri :: "string option"
  resolvedBySource :: bool

record ResolveOptions =
  overwrite :: bool
  forceResolve :: bool

text \<open>
  The session (\<^verbatim>\<open>Kazagumo\<close>) as far as the track and the player read it: the recognised
  options, the table \<^verbatim>\<open>SourceIDs\<close> (declared in \<^verbatim>\<open>Modules/Interfaces\<close>, taken as a
  parameter), and \<^verbatim>\<open>getLeastUsedNode()\<close> with the node's \<^verbatim>\<open>rest.resolve\<close>.
  The resolver hook is called with the track as \<^verbatim>\<open>this\<close>: it may change the track and
  either rejects or returns a flag. The field \<open>regexp_test\<close> is not an option of the
  session: it stands for the test
  \<^verbatim>\<open>new RegExp(`^${escapeRegExp(name)}$`, 'i').test(s)\<close> as the JavaScript engine
  performs it on \<open>name\<close> and \<open>s\<close>, with \<^verbatim>\<open>escapeRegExp\<close> of \<^verbatim>\<open>Modules/Interfaces\<close>,
  and is taken as a parameter.
\<close>

record Kazagumo =
  trackResolver ::
    "(KazagumoTrack \<Rightarrow> ResolveOptions option \<Rightarrow> (rejection + bool) \<times> KazagumoTrack) option"
  sourceForceResolve :: "string list option"
  defaultSearchEngine :: "string option"
  defaultYoutubeThumbnail :: "string option"
  SourceIDs :: "string \<Rightarrow> string option"
  getLeastUsedNode :: "(string \<Rightarrow> Track list option) option"
  regexp_test :: "string \<Rightarrow> string \<Rightarrow> bool"

text \<open>JavaScript truthiness of an optional string and of an optional number.\<close>

fun truthy_str :: "string option \<Rightarrow> bool" where
  "truthy_str None = False"
| "truthy_str (Some s) = (s \<noteq> [])"

fun truthy_num :: "int option \<Rightarrow> bool" where
  "truthy_num None = False"
| "truthy_num (Some n) = (n \<noteq> 0)"

definition setKazagumo :: "Kazagumo \<Rightarrow> KazagumoTrack \<Rightarrow> KazagumoTrack" where
  "setKazagumo k t =
     (let t1 = t\<lparr>kazagumo_set := True\<rparr>
      in if sourceName t1 = ''youtube'' \<and> identifier t1 \<noteq> []
         then t1\<lparr>thumbnail := Some (''https://img.youtube.com/vi/'' @ identifier t1 @ ''/'' @
                   (case defaultYoutubeThumbnail k of None \<Rightarrow> ''hqdefault'' | Some q \<Rightarrow> q) @
                   ''.jpg'')\<rparr>
         else t1)"

definition readyToPlay :: "KazagumoTrack \<Rightarrow> bool" where
  "readyToPlay t \<longleftrightarrow>
     kazagumo_set t \<and> track t \<noteq> [] \<and> sourceName t \<noteq> [] \<and> identifier t \<noteq> [] \<and>
     truthy_str (author t) \<and> truthy_num (length_ms t) \<and> title t \<noteq> [] \<and> uri t \<noteq> [] \<and>
     truthy_str (realUri t)"

subsection \<open>Fallback search\<close>

text \<open>\<^verbatim>\<open>Array.prototype.join\<close> on strings.\<close>

fun join :: "string \<Rightarrow> string list \<Rightarrow> string" where
  "join sep [] = []"
| "join sep [x] = x"
| "join sep (x # y # ys) = x @ sep @ join sep (y # ys)"

text \<open>
  The spacing of the doubles around a non-negative integer \<open>a\<close>: one below \<open>2^53\<close>, and
  doubled with every further binary digit.
\<close>

fun double_scale :: "nat \<Rightarrow> nat" where
  "double_scale a = (if a < 2 ^ 53 then 1 else 2 * double_scale (a div 2))"

declare double_scale.simps [simp del]

text \<open>
  The double nearest to an integer, ties going to the even significand: what an addition
  or subtraction of two integral doubles yields for the exact result \<open>n\<close> (short of the
  range where it overflows).
\<close>

definition round_double :: "int \<Rightarrow> int" where
  "round_double n =
     (let a = nat \<bar>n\<bar>; p = double_scale a; q = a div p; r = a mod p
      in if 2 * r < p \<or> (2 * r = p \<and> even q) then sgn n * int (q * p)
         else sgn n * int ((q + 1) * p))"

text \<open>
  The callbacks of the two \<^verbatim>\<open>find\<close> calls of \<^verbatim>\<open>getTrack\<close>, and the calls under the
  names of their constants.
\<close>

definition is_official :: "Kazagumo \<Rightarrow> string \<Rightarrow> string \<Rightarrow> Track \<Rightarrow> bool" where
  "is_official k a ttl tr \<longleftrightarrow>
     list_ex (\<lambda>name. regexp_test k name (info_author (info tr))) [a, a @ '' - Topic''] \<or>
     regexp_test k ttl (info_title (info tr))"

definition in_window :: "int \<Rightarrow> Track \<Rightarrow> bool" where
  "in_window len tr \<longleftrightarrow>
     info_length (info tr) \<ge> round_double (len - 2000) \<and>
     info_length (info tr) \<le> round_double (len + 2000)"

definition officialTrack :: "Kazagumo \<Rightarrow> string \<Rightarrow> string \<Rightarrow> Track list \<Rightarrow> Track option" where
  "officialTrack k a ttl tracks = find (is_official k a ttl) tracks"

definition sameDuration :: "int \<Rightarrow> Track list \<Rightarrow> Track option" where
  "sameDuration len tracks = find (in_window len) tracks"

text \<open>
  The ranking that ends \<^verbatim>\<open>getTrack\<close>. It runs on a non-empty result list only, so
  \<^verbatim>\<open>result.tracks[0]\<close> exists.
\<close>

definition pick :: "Kazagumo \<Rightarrow> KazagumoTrack \<Rightarrow> Track list \<Rightarrow> Track" where
  "pick k t tracks =
     (case (case author t of
              None \<Rightarrow> None
            | Some a \<Rightarrow> if a \<noteq> [] then officialTrack k a (title t) tracks else None) of
        Some tr \<Rightarrow> tr
      | None \<Rightarrow>
          (case (case length_ms t of
                   None \<Rightarrow> None
                 | Some len \<Rightarrow> if len \<noteq> 0 then sameDuration len tracks else None) of
             Some tr \<Rightarrow> tr
           | None \<Rightarrow> hd tracks))"

text \<open>The JavaScript \<^verbatim>\<open>x || d\<close> on an optional string.\<close>

fun or_else :: "string option \<Rightarrow> string \<Rightarrow> string" where
  "or_else None d = d"
| "or_else (Some s) d = (if s = [] then d else s)"

definition search_query :: "Kazagumo \<Rightarrow> KazagumoTrack \<Rightarrow> string" where
  "search_query k t =
     (let source = or_else (SourceIDs k (or_else (defaultSearchEngine k) ''youtube'')) ''yt'';
          query = join '' - '' (filter (\<lambda>x. x \<noteq> [])
                    [case author t of None \<Rightarrow> [] | Some a \<Rightarrow> a, title t])
      in source @ ''search:'' @ query)"

text \<open>
  \<^verbatim>\<open>getTrack\<close>: the result or the error thrown, and the REST queries issued on the way.
\<close>

definition getTrack :: "Kazagumo \<Rightarrow> KazagumoTrack \<Rightarrow> (KError + Track) \<times> effect list" where
  "getTrack k t =
     (if \<not> kazagumo_set t then (Inl (Error ''Kazagumo is not set''), [])
      else
        (case getLeastUsedNode k of
           None \<Rightarrow> (Inl (KazagumoError 1 ''No nodes available''), [])
         | Some rest_resolve \<Rightarrow>
             (case rest_resolve (search_query k t) of
                None \<Rightarrow> (Inl (KazagumoError 2 ''No results found''), [RestResolve (search_query k t)])
              | Some tracks \<Rightarrow>
                  if tracks = []
                  then (Inl (KazagumoError 2 ''No results found''), [RestResolve (search_query k t)])
                  else (Inr (pick k t tracks), [RestResolve (search_query k t)]))))"

subsection \<open>Resolution\<close>

text \<open>The assignments of \<^verbatim>\<open>resolve\<close> after a search result has been found.\<close>

definition apply_result :: "bool \<Rightarrow> Track \<Rightarrow> KazagumoTrack \<Rightarrow> KazagumoTrack" where
  "apply_result full r t =
     (let t1 = t\<lparr>track := track_enc r, realUri := Some (info_uri (info r)),
                 length_ms := Some (info_length (info r))\<rparr>
      in if full
         then t1\<lparr>title := info_title (info r), identifier := info_identifier (info r),
                 isSeekable := info_isSeekable (info r), author := Some (info_author (info r)),
                 length_ms := Some (info_length (info r)), isStream := info_isStream (info r),
                 uri := info_uri (info r)\<rparr>
         else t1)"

text \<open>
  The part of \<^verbatim>\<open>resolve\<close> after the resolver hook. The result is what the promise
  settles to (\<open>Inr ()\<close> for \<^verbatim>\<open>return this\<close>, \<open>Inl\<close> for a rejection), the track as
  the call leaves it, and the effects in order.
\<close>

definition resolve_search ::
  "Kazagumo \<Rightarrow> ResolveOptions option \<Rightarrow> KazagumoTrack \<Rightarrow>
     (rejection + unit) \<times> KazagumoTrack \<times> effect list"
where
  "resolve_search k options t =
     (let resolveSource = (case sourceForceResolve k of None \<Rightarrow> False
                           | Some l \<Rightarrow> sourceName t \<in> set l);
          opts = (case options of None \<Rightarrow> \<lparr>overwrite = False, forceResolve = False\<rparr>
                  | Some opt \<Rightarrow> opt)
      in if \<not> forceResolve opts \<and> readyToPlay t then (Inr (), t, [])
         else if resolveSource \<and> resolvedBySource t then (Inr (), t, [])
         else
           let t1 = (if resolveSource then t\<lparr>resolvedBySource := True\<rparr> else t);
               dbg = Emit Debug [Str (''Resolving '' @ sourceName t1 @ '' track '' @ title t1 @
                                       ''; Source: '' @ sourceName t1)]
           in (case getTrack k t1 of
                 (Inl e, fx) \<Rightarrow> (Inl (Threw e), t1, dbg # fx)
               | (Inr r, fx) \<Rightarrow>
                   (Inr (), apply_result (overwrite opts \<or> resolveSource) r t1, dbg # fx)))"

definition resolve ::
  "Kazagumo \<Rightarrow> ResolveOptions option \<Rightarrow> KazagumoTrack \<Rightarrow>
     (rejection + unit) \<times> KazagumoTrack \<times> effect list"
where
  "resolve k options t =
     (if \<not> kazagumo_set t then (Inl (Threw (KazagumoError 1 ''Kazagumo is not set'')), t, [])
      else
        (case trackResolver k of
           None \<Rightarrow> resolve_search k options t
         | Some hook \<Rightarrow>
             (case hook t options of
                (Inl rej, t') \<Rightarrow> (Inl rej, t', [])
              | (Inr True, t') \<Rightarrow> (Inr (), t', [])
              | (Inr False, t') \<Rightarrow> resolve_search k options t')))"

subsection \<open>Queue\<close>

text \<open>
  Modelled from the spec: \<^verbatim>\<open>class KazagumoQueue\<close> is declared in
  \<^verbatim>\<open>Managers/Supports/KazagumoQueue\<close>, which is not among the sources. By the
  specification it is an ordered sequence of pending tracks plus the slots
  \<^verbatim>\<open>current\<close> and \<^verbatim>\<open>previous\<close> that are not part of the sequence;
  \<^verbatim>\<open>size\<close> and \<^verbatim>\<open>length\<close> count the sequence, \<^verbatim>\<open>totalSize\<close> adds one when
  \<^verbatim>\<open>current\<close> is set; \<^verbatim>\<open>push\<close>, \<^verbatim>\<open>unshift\<close> and \<^verbatim>\<open>shift\<close> are the usual
  double-ended operations, \<^verbatim>\<open>shift\<close> yielding nothing on an empty sequence.
  The queue holds references into the store of tracks.
\<close>

record KazagumoQueue =
  items :: "ref list"
  current :: "ref option"
  previous :: "ref option"

definition size_q :: "KazagumoQueue \<Rightarrow> nat" where
  "size_q q = length (items q)"

definition totalSize :: "KazagumoQueue \<Rightarrow> nat" where
  "totalSize q = length (items q) + (if current q \<noteq> None then 1 else 0)"

definition unshift :: "ref \<Rightarrow> KazagumoQueue \<Rightarrow> KazagumoQueue" where
  "unshift r q = q\<lparr>items := r # items q\<rparr>"

definition push :: "ref \<Rightarrow> KazagumoQueue \<Rightarrow> KazagumoQueue" where
  "push r q = q\<lparr>items := items q @ [r]\<rparr>"

definition shift :: "KazagumoQueue \<Rightarrow> ref option \<times> KazagumoQueue" where
  "shift q = (case items q of [] \<Rightarrow> (None, q) | r # rs \<Rightarrow> (Some r, q\<lparr>items := rs\<rparr>))"

subsection \<open>Player\<close>

text \<open>The enumeration \<^verbatim>\<open>PlayerState\<close> of \<^verbatim>\<open>Modules/Interfaces\<close>, as the specification lists it.\<close>

datatype PlayerState =
  CONNECTING | CONNECTED | DISCONNECTING | DISCONNECTED | DESTROYING | DESTROYED

text \<open>
  \<^verbatim>\<open>class KazagumoPlayer\<close> with what it reaches through its references: \<open>deaf\<close> is
  \<^verbatim>\<open>options.deaf\<close>, \<open>heap\<close> the store of track objects, \<open>players\<close> the keys of
  the registry \<^verbatim>\<open>kazagumo.players\<close>, \<open>listening\<close> whether the handlers are still
  subscribed to the worker connection, and \<open>effects\<close> the calls made to the event bus,
  the worker connection, the search transport and the voice gateway, in order.
\<close>

record KazagumoPlayer =
  guildId :: string
  voiceId :: "string option"
  textId :: string
  deaf :: "bool option"
  state :: PlayerState
  paused :: bool
  playing :: bool
  loop :: string
  queue :: KazagumoQueue
  heap :: "ref \<Rightarrow> KazagumoTrack"
  players :: "string set"
  listening :: bool
  effects :: "effect list"

text \<open>
  An operation yields the error it throws, if any, and the player as the call leaves it.
\<close>

type_synonym outcome = "KError option \<times> KazagumoPlayer"

definition perform :: "effect \<Rightarrow> KazagumoPlayer \<Rightarrow> KazagumoPlayer" where
  "perform e s = s\<lparr>effects := effects s @ [e]\<rparr>"

definition emit :: "Events \<Rightarrow> arg list \<Rightarrow> KazagumoPlayer \<Rightarrow> KazagumoPlayer" where
  "emit ev args s = perform (Emit ev args) s"

text \<open>The argument of \<^verbatim>\<open>pause\<close> as JavaScript passes it.\<close>

datatype pause_arg = Boolean bool | NotBoolean

fun pause :: "pause_arg \<Rightarrow> KazagumoPlayer \<Rightarrow> outcome" where
  "pause NotBoolean s = (Some (KazagumoError 1 ''pause must be a boolean''), s)"
| "pause (Boolean p) s =
     (if paused s = p \<or> totalSize (queue s) = 0 then (None, s)
      else (None, perform (SetPaused p) (s\<lparr>paused := p, playing := \<not> p\<rparr>)))"

definition setTextChannel :: "string \<Rightarrow> KazagumoPlayer \<Rightarrow> outcome" where
  "setTextChannel tid s =
     (if state s = DESTROYED then (Some (KazagumoError 1 ''Player is already destroyed''), s)
      else (None, s\<lparr>textId := tid\<rparr>))"

definition setVoiceChannel :: "string \<Rightarrow> KazagumoPlayer \<Rightarrow> outcome" where
  "setVoiceChannel vid s =
     (if state s = DESTROYED then (Some (KazagumoError 1 ''Player is already destroyed''), s)
      else
        let s1 = s\<lparr>state := CONNECTING, voiceId := Some vid\<rparr>;
            s2 = perform (Send (guildId s1) (voiceId s1) False (deaf s1)) s1
        in (None, emit Debug [Str (''Player '' @ guildId s2 @ '' moved to voice channel '' @ vid)] s2))"

text \<open>\<^verbatim>\<open>setLoop\<close>: the argument is absent or any string.\<close>

definition setLoop :: "string option \<Rightarrow> KazagumoPlayer \<Rightarrow> outcome" where
  "setLoop l s =
     (case l of
        None \<Rightarrow>
          (None,
           if loop s = ''none'' then s\<lparr>loop := ''queue''\<rparr>
           else if loop s = ''queue'' then s\<lparr>loop := ''track''\<rparr>
           else if loop s = ''track'' then s\<lparr>loop := ''none''\<rparr>
           else s)
      | Some m \<Rightarrow>
          if m = ''none'' \<or> m = ''queue'' \<or> m = ''track'' then (None, s\<lparr>loop := m\<rparr>)
          else (Some (KazagumoError 1 (''loop must be one of 'none', 'queue', 'track'' @ [CHR 0x27])), s))"

definition skip :: "KazagumoPlayer \<Rightarrow> outcome" where
  "skip s =
     (if state s = DESTROYED then (Some (KazagumoError 1 ''Player is already destroyed''), s)
      else (None, perform StopTrack s))"

definition connect :: "KazagumoPlayer \<Rightarrow> outcome" where
  "connect s =
     (if state s = DESTROYED then (Some (KazagumoError 1 ''Player is already destroyed''), s)
      else if state s = CONNECTED \<or> truthy_str (voiceId s)
      then (Some (KazagumoError 1 ''Player is already connected''), s)
      else
        let s1 = s\<lparr>state := CONNECTING\<rparr>;
            s2 = perform (Send (guildId s1) (voiceId s1) False (deaf s1)) s1;
            s3 = s2\<lparr>state := CONNECTED\<rparr>
        in (None, emit Debug [Str (''Player '' @ guildId s3 @ '' connected'')] s3))"

definition disconnect :: "KazagumoPlayer \<Rightarrow> outcome" where
  "disconnect s =
     (if state s = DISCONNECTED \<or> \<not> truthy_str (voiceId s)
      then (Some (KazagumoError 1 ''Player is already disconnected''), s)
      else
        (case pause (Boolean True) (s\<lparr>state := DISCONNECTING\<rparr>) of
           (Some e, s1) \<Rightarrow> (Some e, s1)
         | (None, s1) \<Rightarrow>
             let s2 = perform (Send (guildId s1) None False (Some False)) s1;
                 s3 = s2\<lparr>voiceId := None, state := DISCONNECTED\<rparr>
             in (None, emit Debug [Str (''Player disconnected; Guild id: '' @ guildId s3)] s3)))"

definition destroy :: "KazagumoPlayer \<Rightarrow> outcome" where
  "destroy s =
     (if state s = DESTROYING \<or> state s = DESTROYED
      then (Some (KazagumoError 1 ''Player is already destroyed''), s)
      else
        (case disconnect s of
           (Some e, s1) \<Rightarrow> (Some e, s1)
         | (None, s1) \<Rightarrow>
             let s2 = s1\<lparr>state := DESTROYING\<rparr>;
                 s3 = perform DestroyLavalinkPlayer s2;
                 s4 = (perform RemoveAllListeners s3)\<lparr>listening := False\<rparr>;
                 s5 = s4\<lparr>players := players s4 - {guildId s4}\<rparr>;
                 s6 = s5\<lparr>state := DESTROYED\<rparr>;
                 s7 = emit PlayerDestroy [This] s6
             in (None, emit Debug [Str (''Player destroyed; Guild id: '' @ guildId s7)] s7)))"

subsection \<open>Playing\<close>

text \<open>
  The first argument of \<^verbatim>\<open>play\<close>: absent (or falsy), a track entity, or a truthy value
  that is not a \<^verbatim>\<open>KazagumoTrack\<close>.
\<close>

datatype track_arg = Undefined | IsTrack ref | NotTrack

text \<open>
  \<^verbatim>\<open>if (!options || typeof options.replaceCurrent !== 'boolean')
    options = { ...options, replaceCurrent: false }\<close>
\<close>

definition normalise :: "PlayOptions option \<Rightarrow> PlayOptions" where
  "normalise options =
     (case options of
        None \<Rightarrow> \<lparr>replaceCurrent = Some False, noReplace = None\<rparr>
      | Some opt \<Rightarrow> if replaceCurrent opt = None then opt\<lparr>replaceCurrent := Some False\<rparr> else opt)"

text \<open>
  The selection of the track to play: the supplied track (the current one going back to
  the front of the queue unless it is replaced), else the current one, else the front
  of the queue.
\<close>

definition select_current :: "track_arg \<Rightarrow> PlayOptions \<Rightarrow> KazagumoQueue \<Rightarrow> KazagumoQueue" where
  "select_current trk opt q =
     (case trk of
        IsTrack r \<Rightarrow>
          (case current q of
             Some c \<Rightarrow> (if replaceCurrent opt \<noteq> Some True then unshift c q else q)\<lparr>current := Some r\<rparr>
           | None \<Rightarrow> q\<lparr>current := Some r\<rparr>)
      | _ \<Rightarrow>
          (case current q of
             Some c \<Rightarrow> q
           | None \<Rightarrow> (case shift q of (r, q1) \<Rightarrow> q1\<lparr>current := r\<rparr>)))"

text \<open>
  \<^verbatim>\<open>current.setKazagumo(this.kazagumo)\<close> followed by \<^verbatim>\<open>current.resolve()\<close>: both
  act on the object the queue refers to, and the events and searches of the resolution
  reach the same collaborators as the player's.
\<close>

definition resolve_current ::
  "Kazagumo \<Rightarrow> ref \<Rightarrow> KazagumoPlayer \<Rightarrow> (rejection + unit) \<times> KazagumoPlayer"
where
  "resolve_current k cur s =
     (let s1 = s\<lparr>heap := (heap s)(cur := setKazagumo k (heap s cur))\<rparr>
      in case resolve k None (heap s1 cur) of
           (res, t', fx) \<Rightarrow> (res, s1\<lparr>heap := (heap s1)(cur := t'), effects := effects s1 @ fx\<rparr>))"

text \<open>
  The first three statements of the branch \<^verbatim>\<open>if (!resolveResult)\<close>, for the value
  that the handler of the rejection has stored in \<^verbatim>\<open>errorMessage\<close>.
\<close>

definition resolve_failed :: "ref \<Rightarrow> string option \<Rightarrow> KazagumoPlayer \<Rightarrow> KazagumoPlayer" where
  "resolve_failed cur errorMessage s =
     (let s1 = emit PlayerResolveError [This, TrackArg (Some cur), Msg errorMessage] s;
          s2 = emit Debug [Str (''Player '' @ guildId s1 @ '' resolve error: '' @
                 (case errorMessage of None \<Rightarrow> ''undefined'' | Some m \<Rightarrow> m))] s1
      in s2\<lparr>queue := (queue s2)\<lparr>current := None\<rparr>\<rparr>)"

text \<open>
  \<^verbatim>\<open>play\<close>, run to completion. The call awaits the resolution of the selected track.
  The handler \<^verbatim>\<open>(e) => { errorMessage = e.message; return null; }\<close> of a rejection
  reads the message of the rejection value; where that read raises, the handler's promise
  is rejected and with it the promise of \<^verbatim>\<open>play\<close>, before any statement of the failure
  branch has run. The nested \<^verbatim>\<open>this.play()\<close> of the failure branch is not awaited: the
  outer promise is fulfilled without waiting for it, whatever it throws is lost to the
  caller, and only its effect on the player remains. The player given as the result is
  the one reached when the nested calls have settled too.
\<close>

type_synonym play_outcome = "play_error option \<times> KazagumoPlayer"

function play ::
  "Kazagumo \<Rightarrow> track_arg \<Rightarrow> PlayOptions option \<Rightarrow> KazagumoPlayer \<Rightarrow> play_outcome"
where
  "play k trk options s =
     (if state s = DESTROYED
      then (Some (Thrown (KazagumoError 1 ''Player is already destroyed'')), s)
      else if trk = NotTrack
      then (Some (Thrown (KazagumoError 1 ''track must be a KazagumoTrack'')), s)
      else if trk = Undefined \<and> totalSize (queue s) = 0
      then (Some (Thrown (KazagumoError 1 ''No track is available to play'')), s)
      else
        let s1 = s\<lparr>queue := select_current trk (normalise options) (queue s)\<rparr>
        in (case current (queue s1) of
              None \<Rightarrow> (Some (Thrown (KazagumoError 1 ''No track is available to play'')), s1)
            | Some cur \<Rightarrow>
                (case resolve_current k cur s1 of
                   (Inl rej, s2) \<Rightarrow>
                     (case read_message rej of
                        Inl err \<Rightarrow> (Some err, s2)
                      | Inr errorMessage \<Rightarrow>
                          (None,
                           if size_q (queue (resolve_failed cur errorMessage s2)) \<noteq> 0
                           then snd (play k Undefined None (resolve_failed cur errorMessage s2))
                           else emit PlayerEmpty [This] (resolve_failed cur errorMessage s2)))
                 | (Inr u, s2) \<Rightarrow>
                     (None,
                      perform (PlayTrack (track (heap s2 cur))
                                 ((normalise options)\<lparr>noReplace := Some False\<rparr>)) s2))))"
  by pat_completeness auto

text \<open>
  Every nested call finds the queue shorter, or the slot \<^verbatim>\<open>current\<close> emptied, or the
  supplied track consumed.
\<close>

definition play_measure :: "track_arg \<Rightarrow> KazagumoPlayer \<Rightarrow> nat" where
  "play_measure trk s =
     length (items (queue s)) +
     (case trk of IsTrack r \<Rightarrow> 2 | _ \<Rightarrow> if current (queue s) \<noteq> None then 1 else 0)"

termination play
proof (relation "measure (\<lambda>(k, trk, options, s). play_measure trk s)", goal_cases)
  case 1
  show ?case by simp
next
  case (2 k trk options s s1 cur res s2 rej msg)
  let ?q = "select_current trk (normalise options) (queue s)"
  have "queue s2 = queue s1"
    using 2 by (auto simp: resolve_current_def Let_def split: prod.splits)
  then have q: "queue (resolve_failed cur msg s2) = ?q\<lparr>current := None\<rparr>"
    using 2 by (simp add: resolve_failed_def emit_def perform_def Let_def)
  with 2 have ne: "items ?q \<noteq> []"
    by (simp add: size_q_def)
  have "length (items ?q) < play_measure trk s"
    using ne 2(2)
    by (auto simp: select_current_def unshift_def shift_def play_measure_def
             split: track_arg.splits option.splits list.splits if_splits)
  then show ?case
    using q by (simp add: play_measure_def)
qed

declare play.simps [simp del]

subsection \<open>The handler of the worker's end notification\<close>

text \<open>
  The listener registered for \<^verbatim>\<open>'end'\<close>; \<open>reason\<close> is \<^verbatim>\<open>data.reason\<close>. The promise
  of the closing \<^verbatim>\<open>play()\<close> is dropped by the event emitter.
\<close>

definition on_end :: "Kazagumo \<Rightarrow> string \<Rightarrow> KazagumoPlayer \<Rightarrow> KazagumoPlayer" where
  "on_end k reason s =
     (if state s = DESTROYING \<or> state s = DESTROYED
      then emit Debug [Str (''Player '' @ guildId s @ '' destroyed from end event'')] s
      else if reason = ''REPLACED'' then emit PlayerEnd [This] s
      else if reason \<in> set [''LOAD_FAILED'', ''CLEAN_UP'']
      then
        let s1 = s\<lparr>queue := (queue s)\<lparr>previous := current (queue s)\<rparr>, playing := False\<rparr>
        in if size_q (queue s1) = 0 then emit PlayerEmpty [This] s1
           else
             let s2 = emit PlayerEnd [This, TrackArg (current (queue s1))] s1;
                 s3 = s2\<lparr>queue := (queue s2)\<lparr>current := None\<rparr>\<rparr>
             in snd (play k Undefined None s3)
      else
        let s1 = (case current (queue s) of
                    Some c \<Rightarrow> if loop s = ''track'' then s\<lparr>queue := unshift c (queue s)\<rparr> else s
                  | None \<Rightarrow> s);
            s2 = (case current (queue s1) of
                    Some c \<Rightarrow> if loop s1 = ''queue'' then s1\<lparr>queue := push c (queue s1)\<rparr> else s1
                  | None \<Rightarrow> s1);
            s3 = s2\<lparr>queue := (queue s2)\<lparr>previous := current (queue s2)\<rparr>\<rparr>;
            currentSong = current (queue s3);
            s4 = s3\<lparr>queue := (queue s3)\<lparr>current := None\<rparr>\<rparr>
        in if size_q (queue s4) \<noteq> 0
           then snd (play k Undefined None (emit PlayerEnd [This, TrackArg currentSong] s4))
           else emit PlayerEmpty [This] (s4\<lparr>playing := False\<rparr>))"

subsection \<open>Counting emitted events\<close>



subsection \<open>Concrete sessions, tracks and players\<close>

text \<open>
  The regular-expression test on strings of ASCII characters, the only ones that occur
  below: there the pattern built from \<open>name\<close> accepts exactly the strings that equal
  \<open>name\<close> up to the case of the letters A to Z.
\<close>

definition ascii_lower :: "char \<Rightarrow> char" where
  "ascii_lower c =
     (case map_of (zip ''ABCDEFGHIJKLMNOPQRSTUVWXYZ'' ''abcdefghijklmnopqrstuvwxyz'') c of
        None \<Rightarrow> c
      | Some d \<Rightarrow> d)"

definition ascii_regexp_test :: "string \<Rightarrow> string \<Rightarrow> bool" where
  "ascii_regexp_test name s \<longleftrightarrow> map ascii_lower name = map ascii_lower s"

text \<open>
  A session whose only node answers every search with \<open>results\<close>, a session without
  any node, a session whose resolver hook renames the track and reports that it did not
  resolve it, and a session whose resolver hook rejects with \<^verbatim>\<open>undefined\<close>
  (\<^verbatim>\<open>Promise.reject()\<close>).
\<close>

definition ex_session :: "Track list \<Rightarrow> Kazagumo" where
  "ex_session results =
     \<lparr>trackResolver = None, sourceForceResolve = None, defaultSearchEngine = None,
      defaultYoutubeThumbnail = None, SourceIDs = (\<lambda>engine. None),
      getLeastUsedNode = Some (\<lambda>query. Some results), regexp_test = ascii_regexp_test\<rparr>"

definition ex_offline :: Kazagumo where
  "ex_offline =
     \<lparr>trackResolver = None, sourceForceResolve = None, defaultSearchEngine = None,
      defaultYoutubeThumbnail = None, SourceIDs = (\<lambda>engine. None), getLeastUsedNode = None,
      regexp_test = ascii_regexp_test\<rparr>"

definition ex_hooked :: Kazagumo where
  "ex_hooked =
     \<lparr>trackResolver = Some (\<lambda>t options. (Inr False, t\<lparr>title := ''Z''\<rparr>)),
      sourceForceResolve = None, defaultSearchEngine = None,
      defaultYoutubeThumbnail = None, SourceIDs = (\<lambda>engine. None), getLeastUsedNode = None,
      regexp_test = ascii_regexp_test\<rparr>"

definition ex_rejecting :: Kazagumo where
  "ex_rejecting =
     \<lparr>trackResolver = Some (\<lambda>t options. (Inl Nullish, t)),
      sourceForceResolve = None, defaultSearchEngine = None,
      defaultYoutubeThumbnail = None, SourceIDs = (\<lambda>engine. None), getLeastUsedNode = None,
      regexp_test = ascii_regexp_test\<rparr>"

text \<open>A search result with the given author, title and duration.\<close>

definition ex_result :: "string \<Rightarrow> string \<Rightarrow> int \<Rightarrow> Track" where
  "ex_result a ttl len =
     \<lparr>track_enc = ''QAAA'' @ ttl,
      info = \<lparr>info_identifier = ''dQw4'', info_isSeekable = True, info_author = a,
              info_length = len, info_isStream = False, info_title = ttl,
              info_uri = ''https://www.youtube.com/watch?v=dQw4''\<rparr>\<rparr>"

text \<open>A bound entity of an indirect source that still has to be resolved by search.\<close>

definition ex_entity :: "string option \<Rightarrow> string \<Rightarrow> int option \<Rightarrow> KazagumoTrack" where
  "ex_entity a ttl len =
     \<lparr>kazagumo_set = True, requester = ''user'', track = [], sourceName = ''spotify'',
      title = ttl, uri = ''https://open.spotify.com/track/1'', identifier = ''1'',
      isSeekable = True, isStream = False, author = a, length_ms = len, position = Some 0,
      thumbnail = None, realUri = None, resolvedBySource = False\<rparr>"

text \<open>A bound entity that is ready to play.\<close>

definition ex_ready :: KazagumoTrack where
  "ex_ready =
     \<lparr>kazagumo_set = True, requester = ''user'', track = ''QAAAY'', sourceName = ''soundcloud'',
      title = ''Y'', uri = ''https://soundcloud.com/x/y'', identifier = ''77'',
      isSeekable = True, isStream = False, author = Some ''X'', length_ms = Some 180000,
      position = Some 0, thumbnail = None, realUri = Some ''https://soundcloud.com/x/y'',
      resolvedBySource = False\<rparr>"

text \<open>
  A connected player of guild \<open>g1\<close> with the given pending tracks, current track, loop
  mode and store.
\<close>

definition ex_player ::
  "ref list \<Rightarrow> ref option \<Rightarrow> string \<Rightarrow> (ref \<Rightarrow> KazagumoTrack) \<Rightarrow> KazagumoPlayer"
where
  "ex_player pending cur mode h =
     \<lparr>guildId = ''g1'', voiceId = Some ''v1'', textId = ''t1'', deaf = Some True,
      state = CONNECTED, paused = False, playing = True, loop = mode,
      queue = \<lparr>items = pending, current = cur, previous = None\<rparr>,
      heap = h, players = {''g1''}, listening = True, effects = []\<rparr>"

section \<open>Properties\<close>

subsection \<open>Fallback search ranking\<close>

lemma find_first_index:
  "i < length xs \<Longrightarrow> P (xs ! i) \<Longrightarrow> \<forall>j<i. \<not> P (xs ! j) \<Longrightarrow> find P xs = Some (xs ! i)"
  unfolding find_Some_iff by blast

lemma find_no_match: "\<forall>x\<in>set xs. \<not> P x \<Longrightarrow> find P xs = None"
  by (simp add: find_None_iff)

text \<open>Below \<open>2^53\<close> every integer is a double, and nothing is rounded.\<close>

lemma round_double_small: "\<bar>n\<bar> < 2 ^ 53 \<Longrightarrow> round_double n = n"
proof -
  assume small: "\<bar>n\<bar> < 2 ^ 53"
  then have "nat \<bar>n\<bar> < 2 ^ 53"
    by (simp add: nat_less_iff)
  then have p: "double_scale (nat \<bar>n\<bar>) = 1"
    by (subst double_scale.simps) simp
  show ?thesis
    by (simp add: round_double_def p mult_sgn_abs)
qed

lemma in_window_small:
  "\<bar>len\<bar> < 2 ^ 52 \<Longrightarrow>
   in_window len tr \<longleftrightarrow> len - 2000 \<le> info_length (info tr) \<and> info_length (info tr) \<le> len + 2000"
proof -
  assume "\<bar>len\<bar> < 2 ^ 52"
  then have "\<bar>len - 2000\<bar> < 2 ^ 53" "\<bar>len + 2000\<bar> < 2 ^ 53"
    by simp_all
  then show ?thesis
    by (simp add: in_window_def round_double_small)
qed

text \<open>
  Above it the rounding shows: at the length \<open>2^63\<close> that the worker reports for a
  stream, the lower end of the window is not \<open>2^63 - 2000\<close> but the double next to it.
\<close>

lemma double_scale_stream: "double_scale 9223372036854773808 = 1024"
proof -
  have step: "\<not> a < 2 ^ 53 \<Longrightarrow> double_scale a = 2 * double_scale (a div 2)" for a
    by (subst double_scale.simps) simp
  have base: "a < 2 ^ 53 \<Longrightarrow> double_scale a = 1" for a
    by (subst double_scale.simps) simp
  show ?thesis
    by (simp add: step base)
qed

lemma round_double_stream: "round_double (2 ^ 63 - 2000) = 2 ^ 63 - 2048"
  by (simp add: round_double_def double_scale_stream Let_def)

lemma getTrack_found:
  "kazagumo_set t \<Longrightarrow> getLeastUsedNode k = Some rest \<Longrightarrow>
   rest (search_query k t) = Some tracks \<Longrightarrow> tracks \<noteq> [] \<Longrightarrow>
   getTrack k t = (Inr (pick k t tracks), [RestResolve (search_query k t)])"
  by (simp add: getTrack_def)


lemma pick_duration:
  "(\<forall>a. author t = Some a \<and> a \<noteq> [] \<longrightarrow> (\<forall>tr\<in>set tracks. \<not> is_official k a (title t) tr)) \<Longrightarrow>
   length_ms t = Some len \<Longrightarrow> len \<noteq> 0 \<Longrightarrow> i < length tracks \<Longrightarrow>
   in_window len (tracks ! i) \<Longrightarrow> \<forall>j<i. \<not> in_window len (tracks ! j) \<Longrightarrow>
   pick k t tracks = tracks ! i"
  by (cases "author t")
    (simp_all add: pick_def officialTrack_def sameDuration_def find_first_index find_no_match)


text \<open>
  Claim C7. For a bound track entity with no author and a length of 180000 ms, when the
  search returns three results whose durations are 150000, 179000 and 181500 in that
  order, the fallback search selects the second result, the first one inside the window
  of 2000 ms around the entity's length, and not the third.
\<close>

theorem getTrack_duration_window:
  assumes "kazagumo_set t" and "\<not> truthy_str (author t)" and "length_ms t = Some 180000"
    and "getLeastUsedNode k = Some rest" and "rest (search_query k t) = Some [r1, r2, r3]"
    and "info_length (info r1) = 150000" and "info_length (info r2) = 179000"
    and "info_length (info r3) = 181500"
  shows "fst (getTrack k t) = Inr r2 \<and> fst (getTrack k t) \<noteq> Inr r3"
proof -
  have none: "\<forall>a. author t = Some a \<and> a \<noteq> [] \<longrightarrow>
                (\<forall>tr\<in>set [r1, r2, r3]. \<not> is_official k a (title t) tr)"
    using assms(2) by (cases "author t") auto
  have "pick k t [r1, r2, r3] = [r1, r2, r3] ! 1"
    by (rule pick_duration[OF none assms(3)]) (auto simp: in_window_small assms)
  then have "fst (getTrack k t) = Inr r2"
    using getTrack_found[OF assms(1,4,5)] by simp
  moreover have "r2 \<noteq> r3"
    using assms(7,8) by auto
  ultimately show ?thesis by simp
qed

theorem getTrack_duration_window_witness:
  "fst (getTrack (ex_session [ex_result ''A'' ''T'' 150000, ex_result ''B'' ''U'' 179000,
                              ex_result ''C'' ''V'' 181500])
         (ex_entity None ''Y'' (Some 180000))) = Inr (ex_result ''B'' ''U'' 179000)
   \<and> fst (getTrack (ex_session [ex_result ''A'' ''T'' 150000, ex_result ''B'' ''U'' 179000,
                                ex_result ''C'' ''V'' 181500])
         (ex_entity None ''Y'' (Some 180000))) \<noteq> Inr (ex_result ''C'' ''V'' 181500)"
  using getTrack_duration_window[of "ex_entity None ''Y'' (Some 180000)"
      "ex_session [ex_result ''A'' ''T'' 150000, ex_result ''B'' ''U'' 179000,
                   ex_result ''C'' ''V'' 181500]"
      "\<lambda>query. Some [ex_result ''A'' ''T'' 150000, ex_result ''B'' ''U'' 179000,
                      ex_result ''C'' ''V'' 181500]"
      "ex_result ''A'' ''T'' 150000" "ex_result ''B'' ''U'' 179000"
      "ex_result ''C'' ''V'' 181500"]
  by (simp add: ex_session_def ex_entity_def ex_result_def)




subsection \<open>Resolution of a ready entity\<close>

text \<open>
  Claim C8, as amended. For every track entity that is ready to play (hence bound to a
  session), when the session has no resolver hook, or its hook returns without throwing
  and leaves the entity as it was, resolving without \<open>forceResolve\<close> returns the entity
  with every field identical to before, performs no search and emits nothing.
\<close>

theorem resolve_ready_unchanged:
  assumes "readyToPlay t"
    and "case options of None \<Rightarrow> True | Some opt \<Rightarrow> \<not> forceResolve opt"
    and "case trackResolver k of None \<Rightarrow> True
         | Some hook \<Rightarrow> hook t options = (Inr True, t) \<or> hook t options = (Inr False, t)"
  shows "resolve k options t = (Inr (), t, [])"
proof -
  have bound: "kazagumo_set t"
    using assms(1) by (simp add: readyToPlay_def)
  have short: "resolve_search k options t = (Inr (), t, [])"
    using assms(1,2) by (cases options) (simp_all add: resolve_search_def)
  show ?thesis
  proof (cases "trackResolver k")
    case None
    then show ?thesis using bound short by (simp add: resolve_def)
  next
    case (Some hook)
    then show ?thesis using bound short assms(3) by (auto simp: resolve_def)
  qed
qed

theorem resolve_ready_unchanged_witness:
  "resolve (ex_session []) (Some \<lparr>overwrite = False, forceResolve = False\<rparr>) ex_ready
     = (Inr (), ex_ready, [])"
  using resolve_ready_unchanged[of ex_ready "Some \<lparr>overwrite = False, forceResolve = False\<rparr>"
      "ex_session []"]
  by (simp add: readyToPlay_def ex_ready_def ex_session_def)

text \<open>
  The claim as stated fails: the resolver hook runs before the short-circuit, with the
  entity as its receiver, and what it changes stays changed.
\<close>

theorem resolve_ready_hook_counterexample:
  "readyToPlay ex_ready \<and>
   resolve ex_hooked (Some \<lparr>overwrite = False, forceResolve = False\<rparr>) ex_ready
     = (Inr (), ex_ready\<lparr>title := ''Z''\<rparr>, []) \<and>
   ex_ready\<lparr>title := ''Z''\<rparr> \<noteq> ex_ready"
  by (simp add: resolve_def resolve_search_def readyToPlay_def ex_ready_def ex_hooked_def)

subsection \<open>Loop mode\<close>

lemma setLoop_step:
  "setLoop None s =
     (None, if loop s = ''none'' then s\<lparr>loop := ''queue''\<rparr>
            else if loop s = ''queue'' then s\<lparr>loop := ''track''\<rparr>
            else if loop s = ''track'' then s\<lparr>loop := ''none''\<rparr> else s)"
  by (simp add: setLoop_def)

lemma setLoop_thrice: "snd (setLoop None (snd (setLoop None (snd (setLoop None s))))) = s"
proof -
  consider "loop s = ''none''" | "loop s = ''queue''" | "loop s = ''track''"
    | "loop s \<noteq> ''none''" "loop s \<noteq> ''queue''" "loop s \<noteq> ''track''"
    by blast
  then show ?thesis
  proof cases
    case 1
    have "s\<lparr>loop := ''none''\<rparr> = s" using 1 by simp
    then show ?thesis using 1 by (simp add: setLoop_step)
  next
    case 2
    have "s\<lparr>loop := ''queue''\<rparr> = s" using 2 by simp
    then show ?thesis using 2 by (simp add: setLoop_step)
  next
    case 3
    have "s\<lparr>loop := ''track''\<rparr> = s" using 3 by simp
    then show ?thesis using 3 by (simp add: setLoop_step)
  next
    case 4
    then show ?thesis by (simp add: setLoop_step)
  qed
qed

text \<open>
  Claim C9. Without an argument \<open>setLoop\<close> steps none to queue, queue to track and track
  to none, so three such calls return the loop field (and the whole player) to where it
  started, from every loop mode; with one of the three valid modes as argument that mode
  is set directly; any other argument raises the error of code 1 that names the three
  valid modes and leaves the player unchanged.
\<close>

theorem setLoop_cycle:
  "setLoop None (s\<lparr>loop := ''none''\<rparr>) = (None, s\<lparr>loop := ''queue''\<rparr>) \<and>
   setLoop None (s\<lparr>loop := ''queue''\<rparr>) = (None, s\<lparr>loop := ''track''\<rparr>) \<and>
   setLoop None (s\<lparr>loop := ''track''\<rparr>) = (None, s\<lparr>loop := ''none''\<rparr>) \<and>
   snd (setLoop None (snd (setLoop None (snd (setLoop None s))))) = s \<and>
   (m \<in> {''none'', ''queue'', ''track''} \<longrightarrow> setLoop (Some m) s = (None, s\<lparr>loop := m\<rparr>)) \<and>
   (m \<notin> {''none'', ''queue'', ''track''} \<longrightarrow>
      setLoop (Some m) s =
        (Some (KazagumoError 1 (''loop must be one of 'none', 'queue', 'track'' @ [CHR 0x27])), s))"
proof -
  have 1: "setLoop None (s\<lparr>loop := ''none''\<rparr>) = (None, s\<lparr>loop := ''queue''\<rparr>)"
    by (simp add: setLoop_step)
  have 2: "setLoop None (s\<lparr>loop := ''queue''\<rparr>) = (None, s\<lparr>loop := ''track''\<rparr>)"
    by (simp add: setLoop_step)
  have 3: "setLoop None (s\<lparr>loop := ''track''\<rparr>) = (None, s\<lparr>loop := ''none''\<rparr>)"
    by (simp add: setLoop_step)
  have 5: "m \<in> {''none'', ''queue'', ''track''} \<longrightarrow> setLoop (Some m) s = (None, s\<lparr>loop := m\<rparr>)"
    by (simp add: setLoop_def)
  have 6: "m \<notin> {''none'', ''queue'', ''track''} \<longrightarrow>
      setLoop (Some m) s =
        (Some (KazagumoError 1 (''loop must be one of 'none', 'queue', 'track'' @ [CHR 0x27])), s)"
    by (simp add: setLoop_def)
  show ?thesis using 1 2 3 5 6 setLoop_thrice by blast
qed


theorem setLoop_cycle_witness:
  "setLoop (Some ''track'') (ex_player [] None ''none'' (\<lambda>r. ex_ready))
     = (None, (ex_player [] None ''none'' (\<lambda>r. ex_ready))\<lparr>loop := ''track''\<rparr>) \<and>
   setLoop (Some ''shuffle'') (ex_player [] None ''none'' (\<lambda>r. ex_ready))
     = (Some (KazagumoError 1 (''loop must be one of 'none', 'queue', 'track'' @ [CHR 0x27])),
        ex_player [] None ''none'' (\<lambda>r. ex_ready)) \<and>
   snd (setLoop None (snd (setLoop None (snd (setLoop None
     (ex_player [] None ''queue'' (\<lambda>r. ex_ready))))))) = ex_player [] None ''queue'' (\<lambda>r. ex_ready)"
proof -
  let ?p = "ex_player [] None ''none'' (\<lambda>r. ex_ready)"
  let ?q = "ex_player [] None ''queue'' (\<lambda>r. ex_ready)"
  have a: "''track'' \<in> {''none'', ''queue'', ''track''}" by simp
  have b: "''shuffle'' \<notin> {''none'', ''queue'', ''track''}" by simp
  note c = setLoop_cycle[of ?p "''track''", THEN conjunct2, THEN conjunct2, THEN conjunct2,
      THEN conjunct2, THEN conjunct1, THEN mp, OF a]
  note d = setLoop_cycle[of ?p "''shuffle''", THEN conjunct2, THEN conjunct2, THEN conjunct2,
      THEN conjunct2, THEN conjunct2, THEN mp, OF b]
  note e = setLoop_cycle[of ?q "''none''", THEN conjunct2, THEN conjunct2, THEN conjunct2,
      THEN conjunct1]
  show ?thesis
    by (intro conjI) (rule c, rule d, rule e)
qed

subsection \<open>Playing and resolution failures\<close>


text \<open>The order in which the fields of the player are updated does not matter.\<close>

lemma upd_order:
  "s\<lparr>heap := h, effects := fx, queue := q\<rparr> = s\<lparr>queue := q, heap := h, effects := fx\<rparr>"
  by simp

text \<open>
  One run of the body of \<^verbatim>\<open>play\<close> once its checks have passed, in terms of the outcome
  of resolving the selected track.
\<close>

lemma play_step:
  assumes "state s \<noteq> DESTROYED" and "trk \<noteq> NotTrack"
    and "\<not> (trk = Undefined \<and> totalSize (queue s) = 0)"
    and "current (select_current trk (normalise options) (queue s)) = Some cur"
    and "resolve k None (setKazagumo k (heap s cur)) = (res, t', fx)"
  shows "play k trk options s =
     (case res of
        Inl rej \<Rightarrow>
          (case read_message rej of
             Inl err \<Rightarrow>
               (Some err, s\<lparr>queue := select_current trk (normalise options) (queue s),
                             heap := (heap s)(cur := t'), effects := effects s @ fx\<rparr>)
           | Inr msg \<Rightarrow>
               (let s3 = s\<lparr>queue := (select_current trk (normalise options) (queue s))
                                      \<lparr>current := None\<rparr>,
                           heap := (heap s)(cur := t'),
                           effects := effects s @ fx @
                             [Emit PlayerResolveError [This, TrackArg (Some cur), Msg msg],
                              Emit Debug [Str (''Player '' @ guildId s @ '' resolve error: '' @
                                (case msg of None \<Rightarrow> ''undefined'' | Some m \<Rightarrow> m))]]\<rparr>
                in (None, if size_q (queue s3) \<noteq> 0 then snd (play k Undefined None s3)
                          else s3\<lparr>effects := effects s3 @ [Emit PlayerEmpty [This]]\<rparr>)))
      | Inr u \<Rightarrow>
          (None, s\<lparr>queue := select_current trk (normalise options) (queue s),
                   heap := (heap s)(cur := t'),
                   effects := effects s @ fx @
                     [PlayTrack (track t') ((normalise options)\<lparr>noReplace := Some False\<rparr>)]\<rparr>))"
proof -
  let ?s2 = "s\<lparr>queue := select_current trk (normalise options) (queue s),
                 heap := (heap s)(cur := t'), effects := effects s @ fx\<rparr>"
  have rc: "resolve_current k cur (s\<lparr>queue := select_current trk (normalise options) (queue s)\<rparr>)
     = (res, ?s2)"
    using assms(5) by (simp add: resolve_current_def)
  show ?thesis
  proof (cases res)
    case (Inr u)
    show ?thesis
      using assms(1-4) Inr
      by (subst play.simps) (simp add: rc perform_def Let_def)
  next
    case (Inl rej)
    show ?thesis
    proof (cases "read_message rej")
      case (Inl err)
      show ?thesis
        using assms(1-4) \<open>res = Inl rej\<close> Inl
        by (subst play.simps) (auto simp: rc Let_def)
    next
      case (Inr msg)
      show ?thesis
        using assms(1-4) \<open>res = Inl rej\<close> Inr
        by (subst play.simps)
          (simp add: rc resolve_failed_def emit_def perform_def Let_def upd_order)
    qed
  qed
qed

text \<open>
  When its initial checks pass, \<^verbatim>\<open>play\<close> throws only in one case: the resolution is
  rejected with \<^verbatim>\<open>null\<close> or \<^verbatim>\<open>undefined\<close>.
\<close>

lemma play_returns:
  assumes "state s \<noteq> DESTROYED" and "trk \<noteq> NotTrack"
    and "\<not> (trk = Undefined \<and> totalSize (queue s) = 0)"
    and "current (select_current trk (normalise options) (queue s)) = Some cur"
    and "resolve k None (setKazagumo k (heap s cur)) = (res, t', fx)"
  shows "fst (play k trk options s) = (if res = Inl Nullish then Some TypeError else None)"
proof (cases res)
  case (Inr u)
  then show ?thesis
    unfolding play_step[OF assms] by simp
next
  case (Inl rej)
  then show ?thesis
    unfolding play_step[OF assms] by (cases rej) (simp_all add: Let_def)
qed


text \<open>
  A rejection with \<^verbatim>\<open>null\<close> or \<^verbatim>\<open>undefined\<close> is not: the handler fails on reading the
  message, \<^verbatim>\<open>play\<close> throws that \<^verbatim>\<open>TypeError\<close> to its caller, and the failure branch
  does not run.
\<close>

lemma play_nullish_rejection:
  assumes "state s \<noteq> DESTROYED" and "trk \<noteq> NotTrack"
    and "\<not> (trk = Undefined \<and> totalSize (queue s) = 0)"
    and "current (select_current trk (normalise options) (queue s)) = Some cur"
    and "resolve k None (setKazagumo k (heap s cur)) = (Inl Nullish, t', fx)"
  shows "play k trk options s =
     (Some TypeError, s\<lparr>queue := select_current trk (normalise options) (queue s),
                         heap := (heap s)(cur := t'), effects := effects s @ fx\<rparr>)"
  using play_step[OF assms] by simp

lemma const_upd: "(\<lambda>r. c)(x := c) = (\<lambda>r. c)"
  by auto

lemma ex_resolve_offline:
  "resolve ex_offline None (setKazagumo ex_offline (ex_entity None ''Y'' None)) =
     (Inl (Threw (KazagumoError 1 ''No nodes available'')), ex_entity None ''Y'' None,
      [Emit Debug [Str ''Resolving spotify track Y; Source: spotify'']])"
  by (simp add: resolve_def resolve_search_def getTrack_def readyToPlay_def setKazagumo_def
      ex_offline_def ex_entity_def)

lemma ex_resolve_rejecting:
  "resolve ex_rejecting None (setKazagumo ex_rejecting ex_ready) = (Inl Nullish, ex_ready, [])"
  by (simp add: resolve_def setKazagumo_def ex_rejecting_def ex_ready_def)

text \<open>
  Claim C3. Every failure of \<^verbatim>\<open>resolve()\<close> inside \<^verbatim>\<open>play()\<close> should be caught there and
  never reach the caller of \<^verbatim>\<open>play()\<close>. The code departs from this when the promise is
  rejected with \<^verbatim>\<open>undefined\<close> (or \<^verbatim>\<open>null\<close>), as a resolver hook can do: on a connected
  player whose current track is even ready to play, \<^verbatim>\<open>play()\<close> then throws a
  \<^verbatim>\<open>TypeError\<close> to its caller, emits nothing, and leaves \<^verbatim>\<open>queue.current\<close> and the
  queue as they were.
\<close>

theorem play_nullish_rejection_surfaces:
  "readyToPlay ex_ready \<and>
   play ex_rejecting Undefined None (ex_player [2] (Some 0) ''none'' (\<lambda>r. ex_ready)) =
     (Some TypeError, ex_player [2] (Some 0) ''none'' (\<lambda>r. ex_ready))"
proof -
  let ?s = "ex_player [2] (Some 0) ''none'' (\<lambda>r. ex_ready)"
  have h: "state ?s \<noteq> DESTROYED" "Undefined \<noteq> NotTrack"
    "\<not> (Undefined = Undefined \<and> totalSize (queue ?s) = 0)"
    "current (select_current Undefined (normalise None) (queue ?s)) = Some 0"
    "resolve ex_rejecting None (setKazagumo ex_rejecting (heap ?s 0)) = (Inl Nullish, ex_ready, [])"
    by (simp_all add: ex_player_def totalSize_def select_current_def ex_resolve_rejecting)
  have "play ex_rejecting Undefined None ?s = (Some TypeError, ?s)"
    unfolding play_nullish_rejection[OF h]
    by (simp add: ex_player_def select_current_def const_upd)
  moreover have "readyToPlay ex_ready"
    by (simp add: readyToPlay_def ex_ready_def)
  ultimately show ?thesis by simp
qed

subsection \<open>What playing leaves alone\<close>






subsection \<open>End notifications\<close>



lemma ex_resolve_ready:
  "resolve (ex_session []) None (setKazagumo (ex_session []) ex_ready) = (Inr (), ex_ready, [])"
  by (simp add: resolve_def resolve_search_def readyToPlay_def setKazagumo_def
      ex_session_def ex_ready_def)



lemma on_end_loop_track_play:
  assumes "state s \<noteq> DESTROYING" and "state s \<noteq> DESTROYED"
    and "reason \<noteq> ''REPLACED''" and "reason \<noteq> ''LOAD_FAILED''" and "reason \<noteq> ''CLEAN_UP''"
    and "loop s = ''track''" and "current (queue s) = Some c"
  shows "on_end k reason s =
     snd (play k Undefined None
       (s\<lparr>queue := (queue s)\<lparr>items := c # items (queue s), previous := Some c, current := None\<rparr>,
          effects := effects s @ [Emit PlayerEnd [This, TrackArg (Some c)]]\<rparr>))"
proof -
  have 1: "on_end k reason s =
     snd (play k Undefined None
       (s\<lparr>queue := (queue s)\<lparr>items := c # items (queue s), previous := Some c, current := None\<rparr>,
          effects := effects s @ [Emit PlayerEnd [This, TrackArg (Some c)]]\<rparr>))"
    unfolding on_end_def using assms
    by (simp add: size_q_def unshift_def push_def emit_def perform_def Let_def)
  show ?thesis by (rule 1)
qed

text \<open>
  Claim C5, as amended. For every player that is neither being destroyed nor destroyed,
  with loop mode \<open>track\<close> and a current track, an end notification whose reason is none
  of \<open>REPLACED\<close>, \<open>LOAD_FAILED\<close>, \<open>CLEAN_UP\<close> puts the finished track back at the front
  of the queue, records it as \<^verbatim>\<open>previous\<close>, emits player-end for it and invokes
  \<^verbatim>\<open>play()\<close>; provided that resolving this track succeeds, after that cycle
  \<^verbatim>\<open>queue.current\<close> is the same track again, the pending tracks are as before, and the
  track has been submitted to the worker.
\<close>

theorem on_end_loop_track:
  assumes "state s \<noteq> DESTROYING" and "state s \<noteq> DESTROYED"
    and "reason \<noteq> ''REPLACED''" and "reason \<noteq> ''LOAD_FAILED''" and "reason \<noteq> ''CLEAN_UP''"
    and "loop s = ''track''" and "current (queue s) = Some c"
    and "resolve k None (setKazagumo k (heap s c)) = (Inr (), t', fx)"
  shows "on_end k reason s =
     snd (play k Undefined None
       (s\<lparr>queue := (queue s)\<lparr>items := c # items (queue s), previous := Some c, current := None\<rparr>,
          effects := effects s @ [Emit PlayerEnd [This, TrackArg (Some c)]]\<rparr>)) \<and>
     on_end k reason s =
       s\<lparr>queue := (queue s)\<lparr>previous := Some c\<rparr>,
         heap := (heap s)(c := t'),
         effects := effects s @ [Emit PlayerEnd [This, TrackArg (Some c)]] @ fx @
           [PlayTrack (track t') \<lparr>replaceCurrent = Some False, noReplace = Some False\<rparr>]\<rparr> \<and>
     current (queue (on_end k reason s)) = Some c \<and>
     items (queue (on_end k reason s)) = items (queue s)"
proof -
  let ?s' = "s\<lparr>queue := (queue s)\<lparr>items := c # items (queue s), previous := Some c, current := None\<rparr>,
          effects := effects s @ [Emit PlayerEnd [This, TrackArg (Some c)]]\<rparr>"
  have eq: "on_end k reason s = snd (play k Undefined None ?s')"
    by (rule on_end_loop_track_play[OF assms(1-7)])
  have pre: "state ?s' \<noteq> DESTROYED" "Undefined \<noteq> NotTrack"
    "\<not> (Undefined = Undefined \<and> totalSize (queue ?s') = 0)"
    using assms(2) by (simp_all add: totalSize_def)
  have c: "current (select_current Undefined (normalise None) (queue ?s')) = Some c"
    by (simp add: select_current_def shift_def)
  have r: "resolve k None (setKazagumo k (heap ?s' c)) = (Inr (), t', fx)"
    using assms(8) by simp
  have q: "(queue s)\<lparr>previous := Some c, current := Some c\<rparr> = (queue s)\<lparr>previous := Some c\<rparr>"
    using assms(7) by (cases "queue s") simp
  have fin: "snd (play k Undefined None ?s') =
       s\<lparr>queue := (queue s)\<lparr>previous := Some c\<rparr>,
         heap := (heap s)(c := t'),
         effects := effects s @ [Emit PlayerEnd [This, TrackArg (Some c)]] @ fx @
           [PlayTrack (track t') \<lparr>replaceCurrent = Some False, noReplace = Some False\<rparr>]\<rparr>"
    unfolding play_step[OF pre c r]
    by (simp add: select_current_def shift_def normalise_def q)
  show ?thesis
    using eq fin assms(7) by simp
qed

theorem on_end_loop_track_witness:
  "on_end (ex_session []) ''FINISHED'' (ex_player [2] (Some 0) ''track'' (\<lambda>r. ex_ready)) =
     (ex_player [2] (Some 0) ''track'' (\<lambda>r. ex_ready))
       \<lparr>queue := \<lparr>items = [2], current = Some 0, previous = Some 0\<rparr>,
        effects := [Emit PlayerEnd [This, TrackArg (Some 0)],
                    PlayTrack ''QAAAY'' \<lparr>replaceCurrent = Some False, noReplace = Some False\<rparr>]\<rparr> \<and>
   current (queue (on_end (ex_session []) ''FINISHED''
     (ex_player [2] (Some 0) ''track'' (\<lambda>r. ex_ready)))) = Some 0"
proof -
  let ?s = "ex_player [2] (Some 0) ''track'' (\<lambda>r. ex_ready)"
  have h: "state ?s \<noteq> DESTROYING" "state ?s \<noteq> DESTROYED"
    "''FINISHED'' \<noteq> ''REPLACED''" "''FINISHED'' \<noteq> ''LOAD_FAILED''" "''FINISHED'' \<noteq> ''CLEAN_UP''"
    "loop ?s = ''track''" "current (queue ?s) = Some 0"
    "resolve (ex_session []) None (setKazagumo (ex_session []) (heap ?s 0)) = (Inr (), ex_ready, [])"
    by (simp_all add: ex_player_def ex_resolve_ready)
  note T = on_end_loop_track[OF h]
  have fin: "?s\<lparr>queue := (queue ?s)\<lparr>previous := Some 0\<rparr>, heap := (heap ?s)(0 := ex_ready),
         effects := effects ?s @ [Emit PlayerEnd [This, TrackArg (Some 0)]] @ [] @
           [PlayTrack (track ex_ready) \<lparr>replaceCurrent = Some False, noReplace = Some False\<rparr>]\<rparr>
     = ?s\<lparr>queue := \<lparr>items = [2], current = Some 0, previous = Some 0\<rparr>,
        effects := [Emit PlayerEnd [This, TrackArg (Some 0)],
                    PlayTrack ''QAAAY'' \<lparr>replaceCurrent = Some False, noReplace = Some False\<rparr>]\<rparr>"
    by (simp add: ex_player_def ex_ready_def const_upd)
  show ?thesis
    using T[THEN conjunct2, THEN conjunct1] T[THEN conjunct2, THEN conjunct2, THEN conjunct1]
    unfolding fin by (intro conjI)
qed

text \<open>
  The claim as stated fails: when the finished track cannot be resolved again (here no
  node is available for the search it needs), \<^verbatim>\<open>play()\<close> drops it, and with nothing
  else pending the cycle ends with an empty \<^verbatim>\<open>current\<close> and a player-empty event.
\<close>

theorem on_end_loop_track_counterexample:
  "loop (ex_player [] (Some 0) ''track'' (\<lambda>r. ex_entity None ''Y'' None)) = ''track'' \<and>
   state (ex_player [] (Some 0) ''track'' (\<lambda>r. ex_entity None ''Y'' None)) = CONNECTED \<and>
   current (queue (ex_player [] (Some 0) ''track'' (\<lambda>r. ex_entity None ''Y'' None))) = Some 0 \<and>
   current (queue (on_end ex_offline ''FINISHED''
     (ex_player [] (Some 0) ''track'' (\<lambda>r. ex_entity None ''Y'' None)))) = None \<and>
   items (queue (on_end ex_offline ''FINISHED''
     (ex_player [] (Some 0) ''track'' (\<lambda>r. ex_entity None ''Y'' None)))) = [] \<and>
   last (effects (on_end ex_offline ''FINISHED''
     (ex_player [] (Some 0) ''track'' (\<lambda>r. ex_entity None ''Y'' None)))) = Emit PlayerEmpty [This]"
proof -
  let ?t = "ex_entity None ''Y'' None"
  let ?s = "ex_player [] (Some 0) ''track'' (\<lambda>r. ?t)"
  let ?s' = "?s\<lparr>queue := (queue ?s)\<lparr>items := 0 # items (queue ?s), previous := Some 0, current := None\<rparr>,
          effects := effects ?s @ [Emit PlayerEnd [This, TrackArg (Some 0)]]\<rparr>"
  have h: "state ?s \<noteq> DESTROYING" "state ?s \<noteq> DESTROYED"
    "''FINISHED'' \<noteq> ''REPLACED''" "''FINISHED'' \<noteq> ''LOAD_FAILED''" "''FINISHED'' \<noteq> ''CLEAN_UP''"
    "loop ?s = ''track''" "current (queue ?s) = Some 0"
    by (simp_all add: ex_player_def)
  have eq: "on_end ex_offline ''FINISHED'' ?s = snd (play ex_offline Undefined None ?s')"
    by (rule on_end_loop_track_play[OF h])
  have pre: "state ?s' \<noteq> DESTROYED" "Undefined \<noteq> NotTrack"
    "\<not> (Undefined = Undefined \<and> totalSize (queue ?s') = 0)"
    "current (select_current Undefined (normalise None) (queue ?s')) = Some 0"
    "resolve ex_offline None (setKazagumo ex_offline (heap ?s' 0)) =
       (Inl (Threw (KazagumoError 1 ''No nodes available'')), ?t,
        [Emit Debug [Str ''Resolving spotify track Y; Source: spotify'']])"
    by (simp_all add: ex_player_def totalSize_def select_current_def shift_def ex_resolve_offline)
  have "current (queue (snd (play ex_offline Undefined None ?s'))) = None \<and>
     items (queue (snd (play ex_offline Undefined None ?s'))) = [] \<and>
     last (effects (snd (play ex_offline Undefined None ?s'))) = Emit PlayerEmpty [This]"
    unfolding play_step[OF pre]
    by (simp add: ex_player_def select_current_def shift_def size_q_def)
  then show ?thesis
    unfolding eq by (simp add: ex_player_def)
qed

subsection \<open>Destroying a player\<close>

lemma disconnect_ok:
  assumes "state s \<noteq> DISCONNECTED" and "truthy_str (voiceId s)"
  shows "disconnect s =
     (None, (snd (pause (Boolean True) (s\<lparr>state := DISCONNECTING\<rparr>)))
        \<lparr>voiceId := None, state := DISCONNECTED,
         effects := effects (snd (pause (Boolean True) (s\<lparr>state := DISCONNECTING\<rparr>))) @
           [Send (guildId s) None False (Some False),
            Emit Debug [Str (''Player disconnected; Guild id: '' @ guildId s)]]\<rparr>)"
  using assms by (simp add: disconnect_def emit_def perform_def Let_def)

text \<open>
  Claim C6, as amended. For every player that is neither being destroyed nor destroyed,
  whose state is not \<open>DISCONNECTED\<close> and whose voice channel is set, the first call of
  \<^verbatim>\<open>destroy()\<close> succeeds: it disconnects (pausing a playing queue, sending the leave
  payload, clearing \<^verbatim>\<open>voiceId\<close>), tears down the worker-side player, detaches the
  listeners, removes the player from the registry, reaches \<open>DESTROYED\<close> and emits the
  destroy event; a second call fails with the error \<open>Player is already destroyed\<close> and
  changes nothing.
\<close>

theorem destroy_twice:
  assumes "state s \<noteq> DESTROYING" and "state s \<noteq> DESTROYED"
    and "state s \<noteq> DISCONNECTED" and "truthy_str (voiceId s)"
  shows "fst (destroy s) = None \<and>
     state (snd (destroy s)) = DESTROYED \<and>
     voiceId (snd (destroy s)) = None \<and>
     guildId s \<notin> players (snd (destroy s)) \<and>
     \<not> listening (snd (destroy s)) \<and>
     effects (snd (destroy s)) =
       effects s @ (if paused s \<or> totalSize (queue s) = 0 then [] else [SetPaused True]) @
       [Send (guildId s) None False (Some False),
        Emit Debug [Str (''Player disconnected; Guild id: '' @ guildId s)],
        DestroyLavalinkPlayer, RemoveAllListeners, Emit PlayerDestroy [This],
        Emit Debug [Str (''Player destroyed; Guild id: '' @ guildId s)]] \<and>
     destroy (snd (destroy s)) =
       (Some (KazagumoError 1 ''Player is already destroyed''), snd (destroy s))"
proof -
  let ?p = "snd (pause (Boolean True) (s\<lparr>state := DISCONNECTING\<rparr>))"
  have g: "guildId ?p = guildId s"
    by (simp add: perform_def)
  have fx: "effects ?p =
      effects s @ (if paused s \<or> totalSize (queue s) = 0 then [] else [SetPaused True])"
    by (simp add: perform_def)
  have d: "destroy s = (None, ?p\<lparr>voiceId := None, state := DESTROYED,
         players := players ?p - {guildId s}, listening := False,
         effects := effects ?p @
       [Send (guildId s) None False (Some False),
        Emit Debug [Str (''Player disconnected; Guild id: '' @ guildId s)],
        DestroyLavalinkPlayer, RemoveAllListeners, Emit PlayerDestroy [This],
        Emit Debug [Str (''Player destroyed; Guild id: '' @ guildId s)]]\<rparr>)"
    using assms g by (simp add: destroy_def disconnect_ok emit_def perform_def Let_def)
  show ?thesis
    unfolding d fx by (simp add: destroy_def perform_def)
qed

theorem destroy_twice_witness:
  "fst (destroy (ex_player [2] (Some 0) ''none'' (\<lambda>r. ex_ready))) = None \<and>
   state (snd (destroy (ex_player [2] (Some 0) ''none'' (\<lambda>r. ex_ready)))) = DESTROYED \<and>
   players (snd (destroy (ex_player [2] (Some 0) ''none'' (\<lambda>r. ex_ready)))) = {} \<and>
   effects (snd (destroy (ex_player [2] (Some 0) ''none'' (\<lambda>r. ex_ready)))) =
     [SetPaused True, Send ''g1'' None False (Some False),
      Emit Debug [Str ''Player disconnected; Guild id: g1''],
      DestroyLavalinkPlayer, RemoveAllListeners, Emit PlayerDestroy [This],
      Emit Debug [Str ''Player destroyed; Guild id: g1'']] \<and>
   fst (destroy (snd (destroy (ex_player [2] (Some 0) ''none'' (\<lambda>r. ex_ready)))))
     = Some (KazagumoError 1 ''Player is already destroyed'')"
proof -
  let ?s = "ex_player [2] (Some 0) ''none'' (\<lambda>r. ex_ready)"
  have h: "state ?s \<noteq> DESTROYING" "state ?s \<noteq> DESTROYED" "state ?s \<noteq> DISCONNECTED"
    "truthy_str (voiceId ?s)"
    by (simp_all add: ex_player_def)
  have p: "effects ?s = []" "\<not> (paused ?s \<or> totalSize (queue ?s) = 0)" "guildId ?s = ''g1''"
    by (simp_all add: ex_player_def totalSize_def)
  have pl: "players (snd (destroy ?s)) = {}"
    by (simp add: destroy_def disconnect_def ex_player_def totalSize_def perform_def emit_def Let_def)
  show ?thesis
    using destroy_twice[OF h] p pl by simp
qed

text \<open>
  The claim as stated fails: a player that has been disconnected is neither being
  destroyed nor destroyed, yet its first \<^verbatim>\<open>destroy()\<close> throws and does not reach
  \<open>DESTROYED\<close>.
\<close>

theorem destroy_first_call_counterexample:
  "state (snd (disconnect (ex_player [] None ''none'' (\<lambda>r. ex_ready)))) = DISCONNECTED \<and>
   fst (destroy (snd (disconnect (ex_player [] None ''none'' (\<lambda>r. ex_ready)))))
     = Some (KazagumoError 1 ''Player is already disconnected'') \<and>
   state (snd (destroy (snd (disconnect (ex_player [] None ''none'' (\<lambda>r. ex_ready))))))
     \<noteq> DESTROYED"
  by (simp add: destroy_def disconnect_def ex_player_def totalSize_def perform_def emit_def Let_def)

text \<open>
  Claim C10, as amended. For every player that is neither being destroyed nor destroyed,
  and whose state is \<open>DISCONNECTED\<close> or whose voice channel is not set, \<^verbatim>\<open>destroy()\<close>
  throws the error \<open>Player is already disconnected\<close> of its call to
  \<^verbatim>\<open>disconnect()\<close> before any teardown step: the player is left exactly as it was, so
  its state is unchanged, it stays in the registry and its listeners stay attached.
\<close>

theorem destroy_disconnected_fails:
  assumes "state s \<noteq> DESTROYING" and "state s \<noteq> DESTROYED"
    and "state s = DISCONNECTED \<or> \<not> truthy_str (voiceId s)"
  shows "destroy s = (Some (KazagumoError 1 ''Player is already disconnected''), s)"
  using assms by (simp add: destroy_def disconnect_def)

theorem destroy_disconnected_fails_witness:
  "destroy ((ex_player [] None ''none'' (\<lambda>r. ex_ready))\<lparr>voiceId := None\<rparr>)
     = (Some (KazagumoError 1 ''Player is already disconnected''),
        (ex_player [] None ''none'' (\<lambda>r. ex_ready))\<lparr>voiceId := None\<rparr>)"
  using destroy_disconnected_fails[of "(ex_player [] None ''none'' (\<lambda>r. ex_ready))\<lparr>voiceId := None\<rparr>"]
  by (simp add: ex_player_def)

text \<open>
  The claim as stated fails: a destroyed player has no voice channel either, and there
  \<^verbatim>\<open>destroy()\<close> throws \<open>Player is already destroyed\<close> from its own guard, not the error
  of \<^verbatim>\<open>disconnect()\<close>.
\<close>

theorem destroy_destroyed_counterexample:
  "voiceId ((ex_player [] None ''none'' (\<lambda>r. ex_ready))\<lparr>voiceId := None, state := DESTROYED\<rparr>) = None \<and>
   fst (destroy ((ex_player [] None ''none'' (\<lambda>r. ex_ready))\<lparr>voiceId := None, state := DESTROYED\<rparr>))
     = Some (KazagumoError 1 ''Player is already destroyed'') \<and>
   fst (destroy ((ex_player [] None ''none'' (\<lambda>r. ex_ready))\<lparr>voiceId := None, state := DESTROYED\<rparr>))
     \<noteq> Some (KazagumoError 1 ''Player is already disconnected'')"
  by (simp add: destroy_def ex_player_def)

subsection \<open>Operations on a destroyed player\<close>

text \<open>
  The operations that start with the guard on \<open>DESTROYED\<close> throw there and leave the
  player as it is.
\<close>

lemma destroyed_guarded_operations:
  assumes "state s = DESTROYED"
  shows "setTextChannel tid s = (Some (KazagumoError 1 ''Player is already destroyed''), s)"
    and "setVoiceChannel vid s = (Some (KazagumoError 1 ''Player is already destroyed''), s)"
    and "play k trk options s =
           (Some (Thrown (KazagumoError 1 ''Player is already destroyed'')), s)"
    and "skip s = (Some (KazagumoError 1 ''Player is already destroyed''), s)"
    and "connect s = (Some (KazagumoError 1 ''Player is already destroyed''), s)"
    and "destroy s = (Some (KazagumoError 1 ''Player is already destroyed''), s)"
  using assms
  by (simp_all add: setTextChannel_def setVoiceChannel_def skip_def connect_def destroy_def play.simps)

lemma ex_destroyed:
  "snd (destroy (ex_player [2] (Some 0) ''none'' (\<lambda>r. ex_ready))) =
     (ex_player [2] (Some 0) ''none'' (\<lambda>r. ex_ready))
       \<lparr>voiceId := None, state := DESTROYED, paused := True, playing := False,
        players := {}, listening := False,
        effects := [SetPaused True, Send ''g1'' None False (Some False),
                    Emit Debug [Str ''Player disconnected; Guild id: g1''],
                    DestroyLavalinkPlayer, RemoveAllListeners, Emit PlayerDestroy [This],
                    Emit Debug [Str ''Player destroyed; Guild id: g1'']]\<rparr>"
  by (simp add: destroy_def disconnect_def ex_player_def totalSize_def perform_def emit_def Let_def)

text \<open>
  Claim C1. On a destroyed player every state-mutating operation should fail. The code
  departs from this in \<^verbatim>\<open>pause\<close> and \<^verbatim>\<open>setLoop\<close>, which have no such guard: on the
  player that \<^verbatim>\<open>destroy()\<close> leaves behind, \<^verbatim>\<open>pause(false)\<close> returns normally, flips
  \<^verbatim>\<open>paused\<close> and \<^verbatim>\<open>playing\<close> and addresses the worker connection, and \<^verbatim>\<open>setLoop()\<close>
  returns normally and advances the loop mode.
\<close>

theorem destroyed_pause_setLoop_succeed:
  "fst (destroy (ex_player [2] (Some 0) ''none'' (\<lambda>r. ex_ready))) = None \<and>
   state (snd (destroy (ex_player [2] (Some 0) ''none'' (\<lambda>r. ex_ready)))) = DESTROYED \<and>
   paused (snd (destroy (ex_player [2] (Some 0) ''none'' (\<lambda>r. ex_ready)))) \<and>
   loop (snd (destroy (ex_player [2] (Some 0) ''none'' (\<lambda>r. ex_ready)))) = ''none'' \<and>
   fst (pause (Boolean False) (snd (destroy (ex_player [2] (Some 0) ''none'' (\<lambda>r. ex_ready))))) = None \<and>
   \<not> paused (snd (pause (Boolean False)
       (snd (destroy (ex_player [2] (Some 0) ''none'' (\<lambda>r. ex_ready)))))) \<and>
   playing (snd (pause (Boolean False)
       (snd (destroy (ex_player [2] (Some 0) ''none'' (\<lambda>r. ex_ready)))))) \<and>
   last (effects (snd (pause (Boolean False)
       (snd (destroy (ex_player [2] (Some 0) ''none'' (\<lambda>r. ex_ready))))))) = SetPaused False \<and>
   fst (setLoop None (snd (destroy (ex_player [2] (Some 0) ''none'' (\<lambda>r. ex_ready))))) = None \<and>
   loop (snd (setLoop None (snd (destroy (ex_player [2] (Some 0) ''none'' (\<lambda>r. ex_ready))))))
     = ''queue''"
proof -
  have "fst (destroy (ex_player [2] (Some 0) ''none'' (\<lambda>r. ex_ready))) = None"
    by (simp add: destroy_def disconnect_def ex_player_def totalSize_def perform_def emit_def Let_def)
  then show ?thesis
    unfolding ex_destroyed
    by (simp add: ex_player_def totalSize_def perform_def setLoop_def)
qed

end
